theory Spec2Isabelle
  imports Complex_Main "HOL-Library.AList" "HOL-Library.Log_Nat" "HOL-Library.Sublist"
    "HOL-Library.Word"
begin

unbundle bit_operations_syntax

text \<open>
  A model of the admission and accounting core of the multi-cluster application
  dispatcher: the per-node resource ledger (\<^verbatim>\<open>NodeInfo\<close>) and the quota manager
  (\<^verbatim>\<open>QuotaManager\<close>), each function of the sources as a function on values. The
  definitions come first; the properties, one section each, follow them.
\<close>

section \<open>Resource vectors\<close>

text \<open>
  The node ledger (\<^verbatim>\<open>pkg/controller/clusterstate/api/node_info.go\<close>) and the quota
  manager work on \<^verbatim>\<open>*Resource\<close> values. The quota manager reads the three fields
  \<^verbatim>\<open>MilliCPU\<close> and \<^verbatim>\<open>Memory\<close> (passed as \<^verbatim>\<open>float64\<close>) and \<^verbatim>\<open>GPU\<close> (passed as
  \<^verbatim>\<open>int64\<close>). The file that declares the type and its arithmetic
  (\<^verbatim>\<open>resource_info.go\<close>) is not among the sources, so the operations below follow the
  specification, section 3 and 4.1.

  A finite \<^verbatim>\<open>float64\<close> is represented by the real number it denotes and the ledger
  arithmetic is exact: the rounding of \<^verbatim>\<open>float64\<close> sums and the wrap-around of
  \<^verbatim>\<open>int64\<close> sums are not modelled. Millicore, byte and device counts are integers far
  below \<open>2^53\<close>, where the machine arithmetic is exact as well.
\<close>

record Resource =
  MilliCPU :: real
  Memory :: real
  GPU :: int

text \<open>Modelled from the spec: \<^verbatim>\<open>Empty()\<close>, the all-zero vector (\<^verbatim>\<open>EmptyResource\<close>).\<close>

definition EmptyResource :: Resource where
  "EmptyResource = \<lparr>MilliCPU = 0, Memory = 0, GPU = 0\<rparr>"

text \<open>
  Modelled from the spec: \<^verbatim>\<open>FromCapacity(spec)\<close>, the vector derived from a capacity or
  allocatable declaration (\<^verbatim>\<open>NewResource\<close>). The declaration type, a Kubernetes resource
  list, is outside the sources: a declaration is represented by the vector it denotes,
  and the conversion builds a fresh copy of it.
\<close>

type_synonym ResourceList = Resource

definition NewResource :: "ResourceList \<Rightarrow> Resource" where
  "NewResource rl = \<lparr>MilliCPU = MilliCPU rl, Memory = Memory rl, GPU = GPU rl\<rparr>"

text \<open>
  Modelled from the spec: \<^verbatim>\<open>Add(other)\<close> mutates the receiver to the componentwise sum
  and always succeeds. The result is the new value of the receiver.
\<close>

definition Add :: "Resource \<Rightarrow> Resource \<Rightarrow> Resource" where
  "Add r rr =
     \<lparr>MilliCPU = MilliCPU r + MilliCPU rr, Memory = Memory r + Memory rr,
      GPU = GPU r + GPU rr\<rparr>"

text \<open>
  Modelled from the spec: \<^verbatim>\<open>Sub(other)\<close> mutates the receiver toward the componentwise
  difference and signals an underflow when a dimension would go negative; the callers
  log the signal and go on. The specification (section 9) leaves open what the receiver
  holds after an underflow: (a) each underflowing dimension clamped to zero, or (b) the
  raw, possibly negative, difference. Both readings are modelled; every ledger operation
  takes the reading as its first argument. The result is the new value of the receiver
  and whether an underflow was signalled.
\<close>

datatype SubSemantics = ClampToZero | RawDifference

definition Difference :: "Resource \<Rightarrow> Resource \<Rightarrow> Resource" where
  "Difference r rr =
     \<lparr>MilliCPU = MilliCPU r - MilliCPU rr, Memory = Memory r - Memory rr,
      GPU = GPU r - GPU rr\<rparr>"

definition Underflows :: "Resource \<Rightarrow> bool" where
  "Underflows d = (MilliCPU d < 0 \<or> Memory d < 0 \<or> GPU d < 0)"

definition Sub :: "SubSemantics \<Rightarrow> Resource \<Rightarrow> Resource \<Rightarrow> Resource \<times> bool" where
  "Sub sem r rr =
     (let d = Difference r rr in
      (case sem of
         RawDifference \<Rightarrow> d
       | ClampToZero \<Rightarrow>
           \<lparr>MilliCPU = max 0 (MilliCPU d), Memory = max 0 (Memory d), GPU = max 0 (GPU d)\<rparr>,
       Underflows d))"

section \<open>Tasks and nodes\<close>

text \<open>
  Modelled from the spec: the task status is an enumeration with \<^verbatim>\<open>Releasing\<close> and
  non-releasing states; only the distinction matters to the ledger.
\<close>

datatype TaskStatus = Running | Bound | Releasing

record Pod =
  pod_Namespace :: string
  pod_Name :: string

type_synonym TaskID = string

text \<open>
  Modelled from the spec: the task id is a key formed from the namespace and the name
  (\<^verbatim>\<open>PodKey\<close>, declared outside the sources).
\<close>

definition PodKey :: "Pod \<Rightarrow> TaskID" where
  "PodKey pod = pod_Namespace pod @ ''/'' @ pod_Name pod"

record TaskInfo =
  task_Namespace :: string
  task_Name :: string
  Resreq :: Resource
  Status :: TaskStatus
  Pod :: Pod

text \<open>
  \<^verbatim>\<open>task.Clone()\<close>: the ledger keeps a private copy. Values are immutable here, so the
  copy is the value itself.
\<close>

definition Clone_task :: "TaskInfo \<Rightarrow> TaskInfo" where
  "Clone_task task = task"

type_synonym Taint = "string \<times> string \<times> string"

text \<open>The fields of \<^verbatim>\<open>v1.Node\<close> that the ledger reads.\<close>

record Node =
  node_Name :: string
  node_Allocatable :: ResourceList
  node_Capacity :: ResourceList
  node_Labels :: "(string \<times> string) list"
  node_Unschedulable :: bool
  node_Taints :: "Taint list"

section \<open>The node ledger\<close>

text \<open>
  \<^verbatim>\<open>NodeInfo\<close>. The pointer \<^verbatim>\<open>Node\<close> is an option (\<^verbatim>\<open>nil\<close> is \<open>None\<close>). The map
  \<^verbatim>\<open>Tasks\<close> is an association list: \<^verbatim>\<open>SetNode\<close> and \<^verbatim>\<open>Clone\<close> range over the map,
  and the list order stands for the order in which the range visits it.
\<close>

record NodeInfo =
  Name :: string
  Node :: "Node option"
  Releasing :: Resource
  Idle :: Resource
  Used :: Resource
  Allocatable :: Resource
  Capability :: Resource
  Labels :: "(string \<times> string) list"
  Unschedulable :: bool
  Taints :: "Taint list"
  Tasks :: "(TaskID \<times> TaskInfo) list"

text \<open>The \<^verbatim>\<open>klog.Warningf\<close> sites of the ledger, one constructor each.\<close>

datatype Warning =
    SetNode_idle_subtraction
  | PipelineTask_release_subtraction
  | AddTask_idle_subtract
  | RemoveTask_release_subtraction
  | RemoveTask_usage_subtraction

definition NewNodeInfo :: "Node option \<Rightarrow> NodeInfo" where
  "NewNodeInfo node =
     (case node of
        None \<Rightarrow>
          \<lparr>Name = [], Node = None,
           Releasing = EmptyResource, Idle = EmptyResource, Used = EmptyResource,
           Allocatable = EmptyResource, Capability = EmptyResource,
           Labels = [], Unschedulable = False, Taints = [], Tasks = []\<rparr>
      | Some n \<Rightarrow>
          \<lparr>Name = node_Name n, Node = Some n,
           Releasing = EmptyResource, Idle = NewResource (node_Allocatable n),
           Used = EmptyResource,
           Allocatable = NewResource (node_Allocatable n),
           Capability = NewResource (node_Capacity n),
           Labels = node_Labels n, Unschedulable = node_Unschedulable n,
           Taints = node_Taints n, Tasks = []\<rparr>)"

text \<open>
  A call returns the ledger after the call, the error (\<^verbatim>\<open>nil\<close> is \<open>None\<close>) and the
  warnings it logged.
\<close>

type_synonym LedgerResult = "NodeInfo \<times> string option \<times> Warning list"

definition warn_if :: "bool \<Rightarrow> Warning \<Rightarrow> Warning list" where
  "warn_if err w = (if err then [w] else [])"

definition PipelineTask :: "SubSemantics \<Rightarrow> NodeInfo \<Rightarrow> TaskInfo \<Rightarrow> LedgerResult" where
  "PipelineTask sem ni task =
     (let key = PodKey (Pod task) in
      if map_of (Tasks ni) key \<noteq> None then
        (ni,
         Some (''task <'' @ task_Namespace task @ ''/'' @ task_Name task
               @ ''> already on node <'' @ Name ni @ ''>''),
         [])
      else
        let ti = Clone_task task in
        if Node ni \<noteq> None then
          let (releasing, err) = Sub sem (Releasing ni) (Resreq ti) in
          (ni\<lparr>Releasing := releasing, Used := Add (Used ni) (Resreq ti),
              Tasks := AList.update key ti (Tasks ni)\<rparr>,
           None, warn_if err PipelineTask_release_subtraction)
        else
          (ni\<lparr>Tasks := AList.update key ti (Tasks ni)\<rparr>, None, []))"

definition AddTask :: "SubSemantics \<Rightarrow> NodeInfo \<Rightarrow> TaskInfo \<Rightarrow> LedgerResult" where
  "AddTask sem ni task =
     (let key = PodKey (Pod task) in
      if map_of (Tasks ni) key \<noteq> None then
        (ni,
         Some (''task <'' @ task_Namespace task @ ''/'' @ task_Name task
               @ ''> already on node <'' @ Name ni @ ''>''),
         [])
      else
        let ti = Clone_task task in
        if Node ni \<noteq> None then
          let releasing =
                (if Status ti = TaskStatus.Releasing then Add (Releasing ni) (Resreq ti)
                 else Releasing ni);
              (idle, err) = Sub sem (Idle ni) (Resreq ti)
          in
          (ni\<lparr>Releasing := releasing, Idle := idle, Used := Add (Used ni) (Resreq ti),
              Tasks := AList.update key ti (Tasks ni)\<rparr>,
           None, warn_if err AddTask_idle_subtract)
        else
          (ni\<lparr>Tasks := AList.update key ti (Tasks ni)\<rparr>, None, []))"

definition RemoveTask :: "SubSemantics \<Rightarrow> NodeInfo \<Rightarrow> TaskInfo \<Rightarrow> LedgerResult" where
  "RemoveTask sem ni ti =
     (let key = PodKey (Pod ti) in
      case map_of (Tasks ni) key of
        None \<Rightarrow>
          (ni,
           Some (''failed to find task <'' @ task_Namespace ti @ ''/'' @ task_Name ti
                 @ ''> on host <'' @ Name ni @ ''>''),
           [])
      | Some task \<Rightarrow>
          if Node ni \<noteq> None then
            let (releasing, err1) =
                  (if Status task = TaskStatus.Releasing then Sub sem (Releasing ni) (Resreq task)
                   else (Releasing ni, False));
                idle = Add (Idle ni) (Resreq task);
                (used, err2) = Sub sem (Used ni) (Resreq task)
            in
            (ni\<lparr>Releasing := releasing, Idle := idle, Used := used,
                Tasks := AList.delete key (Tasks ni)\<rparr>,
             None,
             warn_if err1 RemoveTask_release_subtraction
             @ warn_if err2 RemoveTask_usage_subtraction)
          else
            (ni\<lparr>Tasks := AList.delete key (Tasks ni)\<rparr>, None, []))"

definition UpdateTask :: "SubSemantics \<Rightarrow> NodeInfo \<Rightarrow> TaskInfo \<Rightarrow> LedgerResult" where
  "UpdateTask sem ni ti =
     (case RemoveTask sem ni ti of
        (ni1, Some err, w1) \<Rightarrow> (ni1, Some err, w1)
      | (ni1, None, w1) \<Rightarrow>
          (case AddTask sem ni1 ti of (ni2, err, w2) \<Rightarrow> (ni2, err, w1 @ w2)))"

text \<open>
  The loop of \<^verbatim>\<open>SetNode\<close> over the tracked tasks: the pools \<open>(releasing, idle, used)\<close>
  and the warnings logged so far are threaded through.
\<close>

fun SetNode_tasks ::
  "SubSemantics \<Rightarrow> (TaskID \<times> TaskInfo) list \<Rightarrow> Resource \<times> Resource \<times> Resource \<times> Warning list
     \<Rightarrow> Resource \<times> Resource \<times> Resource \<times> Warning list" where
  "SetNode_tasks sem [] acc = acc"
| "SetNode_tasks sem ((key, task) # tasks) (releasing, idle, used, ws) =
     (let releasing' =
            (if Status task = TaskStatus.Releasing then Add releasing (Resreq task) else releasing);
          (idle', err) = Sub sem idle (Resreq task)
      in SetNode_tasks sem tasks
           (releasing', idle', Add used (Resreq task),
            ws @ warn_if err SetNode_idle_subtraction))"

text \<open>
  \<^verbatim>\<open>NewStringsMap\<close> and \<^verbatim>\<open>NewTaints\<close> copy the labels and the taints of the node; the
  copies are the values themselves.
\<close>

definition SetNode :: "SubSemantics \<Rightarrow> NodeInfo \<Rightarrow> Node \<Rightarrow> NodeInfo \<times> Warning list" where
  "SetNode sem ni node =
     (let (ni1, ws) =
            (if Node ni = None then
               (case SetNode_tasks sem (Tasks ni)
                       (Releasing ni, NewResource (node_Allocatable node), Used ni, []) of
                  (releasing, idle, used, ws) \<Rightarrow>
                    (ni\<lparr>Releasing := releasing, Idle := idle, Used := used\<rparr>, ws))
             else (ni, []))
      in
      (ni1\<lparr>Name := node_Name node, Node := Some node,
           Allocatable := NewResource (node_Allocatable node),
           Capability := NewResource (node_Capacity node),
           Labels := node_Labels node,
           Unschedulable := node_Unschedulable node,
           Taints := node_Taints node\<rparr>,
       ws))"

text \<open>\<^verbatim>\<open>Clone\<close>: a new ledger for the same node, every tracked task added again.\<close>

definition Clone :: "SubSemantics \<Rightarrow> NodeInfo \<Rightarrow> NodeInfo" where
  "Clone sem ni =
     fold (\<lambda>(key, p) res. fst (AddTask sem res p)) (Tasks ni) (NewNodeInfo (Node ni))"

section \<open>The quota manager: demand conversion\<close>

text \<open>
  \<^verbatim>\<open>MaxInt = int(^uint(0) >> 1)\<close>: all bits of an unsigned machine word, shifted right
  by one. The word is taken to have 64 bits, the platforms the controller is deployed on;
  there \<^verbatim>\<open>int\<close> and \<^verbatim>\<open>int64\<close> coincide.
\<close>

definition MaxInt :: int where
  "MaxInt = uint (drop_bit 1 (NOT (0 :: 64 word)))"

text \<open>
  \<^verbatim>\<open>float64(n)\<close> for an integer \<open>n\<close>: the nearest value with a 53-bit significand, ties to
  the even significand (IEEE 754, as the Go specification prescribes for conversions).
\<close>

definition float64_of_int :: "int \<Rightarrow> real" where
  "float64_of_int n =
     (let a = \<bar>n\<bar>; k = nat (bitlen a) in
      if k \<le> 53 then real_of_int n
      else
        let e = k - 53;
            q = a div 2 ^ e;
            r = a mod 2 ^ e;
            half = 2 ^ (e - 1);
            q' = (if half < r \<or> (r = half \<and> odd q) then q + 1 else q)
        in real_of_int (sgn n * q' * 2 ^ e))"

text \<open>\<^verbatim>\<open>math.Trunc\<close>: the integer part, rounding toward zero.\<close>

definition Trunc :: "real \<Rightarrow> real" where
  "Trunc x = (if 0 \<le> x then real_of_int \<lfloor>x\<rfloor> else real_of_int \<lceil>x\<rceil>)"

text \<open>
  \<^verbatim>\<open>int(x)\<close> for a \<^verbatim>\<open>float64\<close>: the fraction is discarded. When the value does not fit the
  result is implementation-dependent by the language specification; the model gives the
  result of the amd64 conversion instruction, the smallest integer.

  A demand is a finite \<^verbatim>\<open>float64\<close>, represented by the real number it denotes: the
  comparison and \<^verbatim>\<open>math.Trunc\<close> are exact on it. Infinities and NaN are not represented,
  and the quotient \<^verbatim>\<open>Memory/1000000\<close> is the exact one.
\<close>

definition int_of_float64 :: "real \<Rightarrow> int" where
  "int_of_float64 x =
     (let t = (if 0 \<le> x then \<lfloor>x\<rfloor> else \<lceil>x\<rceil>) in
      if - (2 ^ 63) \<le> t \<and> t < 2 ^ 63 then t else - (2 ^ 63))"

text \<open>
  The errors of the demand conversion, one constructor for each \<^verbatim>\<open>fmt.Errorf\<close> call with
  its operands:
  \<^item> \<open>DemandTooLargeFloat d m\<close> and \<open>DemandTooLargeInt d m\<close>: demand \<open>d\<close> is larger than Max
    Quota Management Backend size, resetting demand to \<open>m\<close>;
  \<^item> \<open>ResourceTypeError t e\<close>: resource type: \<open>t\<close> \<open>e\<close>;
  \<^item> \<open>NextResourceTypeError e0 t e\<close>: \<open>e0\<close>; next error resource type: \<open>t\<close> \<open>e\<close>;
  \<^item> \<open>ProcessedLess p ts\<close>: resource type processed \<open>p\<close> less than expected \<open>ts\<close>;
  \<^item> \<open>NextProcessedLess e0 p ts\<close>: \<open>e0\<close>; next error resource type processed \<open>p\<close> less than
    expected \<open>ts\<close>.
\<close>

datatype DemandError =
    DemandTooLargeFloat real int
  | DemandTooLargeInt int int
  | ResourceTypeError string DemandError
  | NextResourceTypeError DemandError string DemandError
  | ProcessedLess "string list" "string list"
  | NextProcessedLess DemandError "string list" "string list"

definition convertInt64Demand :: "int \<Rightarrow> int \<times> DemandError option" where
  "convertInt64Demand int64Demand =
     (if int64Demand > MaxInt then (MaxInt, Some (DemandTooLargeInt int64Demand MaxInt))
      else (int64Demand, None))"

definition convertFloat64Demand :: "real \<Rightarrow> int \<times> DemandError option" where
  "convertFloat64Demand floatDemand =
     (if floatDemand > float64_of_int MaxInt then
        (MaxInt, Some (DemandTooLargeFloat floatDemand MaxInt))
      else (int_of_float64 (Trunc floatDemand), None))"

text \<open>
  \<^verbatim>\<open>strings.ToLower\<close> on the ASCII letters, and \<^verbatim>\<open>strings.Contains\<close>. Bytes beyond
  ASCII are left as they are.
\<close>

definition lower_byte :: "char \<Rightarrow> char" where
  "lower_byte c =
     (case map_of (zip ''ABCDEFGHIJKLMNOPQRSTUVWXYZ'' ''abcdefghijklmnopqrstuvwxyz'') c of
        Some l \<Rightarrow> l
      | None \<Rightarrow> c)"

definition ToLower :: "string \<Rightarrow> string" where
  "ToLower s = map lower_byte s"

fun Contains :: "string \<Rightarrow> string \<Rightarrow> bool" where
  "Contains [] substr = (substr = [])"
| "Contains (c # s) substr = (prefix substr (c # s) \<or> Contains s substr)"

text \<open>
  One resource type of a tree that matched a rule: the conversion error, if any, is
  chained to the errors so far, the demand is stored and the type is counted as
  processed. The source repeats these lines for each of the three rules.
\<close>

type_synonym Demands = "(string \<times> int) list \<times> DemandError option \<times> string list"

definition store_demand :: "string \<Rightarrow> int \<times> DemandError option \<Rightarrow> Demands \<Rightarrow> Demands" where
  "store_demand treeResourceType conv acc =
     (case (conv, acc) of
        ((demand, converErr), (demands, err, processedResourceTypes)) \<Rightarrow>
          (AList.update treeResourceType demand demands,
           (case converErr of
              None \<Rightarrow> err
            | Some ce \<Rightarrow>
                (case err of
                   None \<Rightarrow> Some (ResourceTypeError treeResourceType ce)
                 | Some e \<Rightarrow> Some (NextResourceTypeError e treeResourceType ce))),
           processedResourceTypes @ [treeResourceType]))"

definition demand_of_type :: "Resource \<Rightarrow> string \<Rightarrow> Demands \<Rightarrow> Demands" where
  "demand_of_type awResDemands treeResourceType acc =
     (let acc1 =
            (if Contains (ToLower treeResourceType) ''cpu'' then
               store_demand treeResourceType
                 (convertFloat64Demand (MilliCPU awResDemands)) acc
             else acc);
          acc2 =
            (if Contains (ToLower treeResourceType) ''memory'' then
               store_demand treeResourceType
                 (convertFloat64Demand (Memory awResDemands / 1000000)) acc1
             else acc1)
      in
      if Contains (ToLower treeResourceType) ''gpu'' then
        store_demand treeResourceType (convertInt64Demand (GPU awResDemands)) acc2
      else acc2)"

definition getQuotaTreeResourceTypesDemands ::
  "Resource \<Rightarrow> string list \<Rightarrow> (string \<times> int) list \<times> DemandError option" where
  "getQuotaTreeResourceTypesDemands awResDemands treeToResourceTypes =
     (case fold (demand_of_type awResDemands) treeToResourceTypes ([], None, []) of
        (demands, err, processedResourceTypes) \<Rightarrow>
          if length processedResourceTypes < length treeToResourceTypes then
            (demands,
             (case err of
                None \<Rightarrow> Some (ProcessedLess processedResourceTypes treeToResourceTypes)
              | Some e \<Rightarrow>
                  Some (NextProcessedLess e processedResourceTypes treeToResourceTypes)))
          else (demands, err))"

section \<open>The quota manager: collaborators\<close>

text \<open>
  The quota forest backend (\<^verbatim>\<open>qmbackend.Manager\<close>), the resource plan manager and the job
  lister are not among the sources. They are a record of operations over a state \<open>'w\<close>,
  the state of everything behind the pointers of the quota manager; \<open>'c\<close> is the
  backend's \<^verbatim>\<open>ConsumerInfo\<close>. A getter reads the state; every other operation returns
  the state after it. Any backend can be supplied for the record.
\<close>

definition QuotaManagerForestName :: string where
  "QuotaManagerForestName = ''MCAD-CONTROLLER-FOREST''"

datatype Mode = Normal | Maintenance

record QuotaGroup =
  GroupContext :: string
  GroupId :: string

text \<open>The fields of \<^verbatim>\<open>arbv1.AppWrapper\<close> that the quota manager reads.\<close>

record AppWrapper =
  aw_Namespace :: string
  aw_Name :: string
  aw_Labels :: "(string \<times> string) list"
  aw_Priority :: int

record JConsumerTreeSpec =
  tree_ID :: string
  TreeName :: string
  GroupID :: string
  Request :: "(string \<times> int) list"
  Priority :: int
  CType :: int
  UnPreemptable :: bool

record JConsumerSpec =
  spec_ID :: string
  Trees :: "JConsumerTreeSpec list"

record JConsumer =
  Kind :: string
  Spec :: JConsumerSpec

text \<open>The allocation response, by its three getters.\<close>

record AllocationResponse =
  IsAllocated :: bool
  GetMessage :: string
  GetPreemptedIds :: "string list"

text \<open>
  \<^verbatim>\<open>AllocateForest\<close> returns a response and an error: with an error the response may be
  \<^verbatim>\<open>nil\<close>, without one the caller dereferences it.
\<close>

datatype AllocateResult =
    AllocateError "AllocationResponse option" string
  | AllocateDone AllocationResponse

record ('w, 'c) Collaborators =
  GetMode :: "'w \<Rightarrow> Mode"
  GetTreeNames :: "'w \<Rightarrow> string list"
  GetResourceNames :: "'w \<Rightarrow> string \<Rightarrow> string list"
  UpdateForest :: "'w \<Rightarrow> string \<Rightarrow> string option \<times> 'w"
  AddConsumer :: "'w \<Rightarrow> 'c \<Rightarrow> 'w"
  AllocateForest :: "'w \<Rightarrow> string \<Rightarrow> string \<Rightarrow> AllocateResult \<times> 'w"
  DeAllocateForest :: "'w \<Rightarrow> string \<Rightarrow> string \<Rightarrow> bool \<times> 'w"
  RemoveConsumer :: "'w \<Rightarrow> string \<Rightarrow> (bool \<times> string option) \<times> 'w"
  IsResplanChanged :: "'w \<Rightarrow> bool \<times> 'w"
  LoadResourcePlansIntoBackend :: "'w \<Rightarrow> 'w"
  NewConsumerInfo :: "JConsumer \<Rightarrow> string + 'c"
  GetID :: "'c \<Rightarrow> string"
  DefaultConsumerKind :: string
  Lister_Get :: "'w \<Rightarrow> string \<Rightarrow> string \<Rightarrow> AppWrapper option"

text \<open>
  \<open>GetResourceNames E w t\<close> is \<^verbatim>\<open>GetTreeCache(t).GetResourceNames()\<close>. \<open>UpdateForest\<close> returns
  its error only: the unallocated consumers and the dangling nodes are logged and
  dropped by \<^verbatim>\<open>updateForestFromCache\<close>. \<open>NewConsumerInfo\<close> returns the error (\<open>Inl\<close>) or the
  consumer. \<open>Lister_Get E w ns n\<close> is \<^verbatim>\<open>appwrapperLister.AppWrappers(ns).Get(n)\<close>, \<open>None\<close> when
  it returns an error.

  The calls that can change the state are recorded, in order, beside the state.
\<close>

datatype BackendCall =
    Call_IsResplanChanged
  | Call_LoadResourcePlansIntoBackend
  | Call_UpdateForest string
  | Call_AddConsumer string
  | Call_AllocateForest string string
  | Call_DeAllocateForest string string
  | Call_RemoveConsumer string

type_synonym 'w World = "'w \<times> BackendCall list"

text \<open>
  \<^verbatim>\<open>QuotaManager\<close>: the pointer \<^verbatim>\<open>quotaManagerBackend\<close> is \<open>None\<close> when \<^verbatim>\<open>nil\<close>; the objects
  behind it and behind \<^verbatim>\<open>resourcePlanManager\<close> and \<^verbatim>\<open>appwrapperLister\<close> are the state
  \<open>'w\<close>. \<^verbatim>\<open>NewQuotaManager\<close> sets \<^verbatim>\<open>initializationDone\<close> after it has replayed the
  dispatched jobs through \<^verbatim>\<open>Fits\<close> and set the backend's mode to \<^verbatim>\<open>Normal\<close>.
\<close>

record QuotaManager =
  preemptionEnabled :: bool
  quotaManagerBackend :: "unit option"
  initializationDone :: bool

text \<open>
  Modelled from the spec: a job id is the namespace and name pair, and cannot be formed
  when either is empty (\<^verbatim>\<open>util.CreateId\<close> and \<^verbatim>\<open>util.ParseId\<close>, outside the sources).
\<close>

definition CreateId :: "string \<Rightarrow> string \<Rightarrow> string" where
  "CreateId ns n = (if length ns > 0 \<and> length n > 0 then ns @ ''/'' @ n else [])"

fun split_slash :: "string \<Rightarrow> string list" where
  "split_slash [] = [[]]"
| "split_slash (c # s) =
     (if c = CHR ''/'' then [] # split_slash s
      else (case split_slash s of [] \<Rightarrow> [[c]] | p # ps \<Rightarrow> (c # p) # ps))"

definition ParseId :: "string \<Rightarrow> string \<times> string" where
  "ParseId id' = (case split_slash id' of [ns, n] \<Rightarrow> (ns, n) | _ \<Rightarrow> ([], []))"

section \<open>The quota manager: quota designation\<close>

text \<open>
  \<^verbatim>\<open>fmt.Errorf(format)\<close> with no operand, as \<^verbatim>\<open>getQuotaDesignation\<close> calls it on the
  message it has assembled. The package \<^verbatim>\<open>fmt\<close> copies the format up to a \<^verbatim>\<open>%\<close> and reads
  a directive there: \<^verbatim>\<open>%%\<close> prints one \<^verbatim>\<open>%\<close>; a verb \<^verbatim>\<open>v\<close> that finds no operand prints
  \<^verbatim>\<open>%!v(MISSING)\<close>; a \<^verbatim>\<open>%\<close> that ends the format prints \<^verbatim>\<open>%!(NOVERB)\<close>. A directive is
  read here as \<^verbatim>\<open>%\<close> and the verb byte after it: flags, width, precision, argument
  indexes and verbs beyond ASCII are outside this model. A format without \<^verbatim>\<open>%\<close> is
  printed as it is.
\<close>

fun Errorf0 :: "string \<Rightarrow> string" where
  "Errorf0 [] = []"
| "Errorf0 [c] = (if c = CHR ''%'' then ''%!(NOVERB)'' else [c])"
| "Errorf0 (c # v # s) =
     (if c \<noteq> CHR ''%'' then c # Errorf0 (v # s)
      else if v = CHR ''%'' then CHR ''%'' # Errorf0 s
      else ''%!'' @ [v] @ ''(MISSING)'' @ Errorf0 s)"

fun isValidQuota :: "QuotaGroup \<Rightarrow> string list \<Rightarrow> bool" where
  "isValidQuota quotaGroup [] = False"
| "isValidQuota quotaGroup (treeNodeID # qmTreeIDs) =
     (if treeNodeID = GroupContext quotaGroup then True
      else isValidQuota quotaGroup qmTreeIDs)"

text \<open>
  The labels of a job are a map, here an association list read as a map: \<open>MapKeys\<close> has
  every key once, and \<open>label_value\<close> is the value bound to a key (the empty string when
  there is none). The order of \<open>MapKeys\<close> stands for the order in which the range over
  the keys visits them.
\<close>

definition MapKeys :: "(string \<times> string) list \<Rightarrow> string list" where
  "MapKeys labels = remdups (map fst labels)"

definition label_value :: "(string \<times> string) list \<Rightarrow> string \<Rightarrow> string" where
  "label_value labels k = (case map_of labels k of None \<Rightarrow> [] | Some v \<Rightarrow> v)"

text \<open>The body of the loop over the label keys.\<close>

definition designation_of_label ::
  "('w, 'c) Collaborators \<Rightarrow> 'w \<Rightarrow> string list \<Rightarrow> (string \<times> string) list \<Rightarrow> string
     \<Rightarrow> QuotaGroup list \<times> (string \<times> string list) list
     \<Rightarrow> QuotaGroup list \<times> (string \<times> string list) list" where
  "designation_of_label E w qmTreeIDs labels strkey acc =
     (case acc of
        (groups, treeNameToResourceTypes) \<Rightarrow>
          let quotaGroup = \<lparr>GroupContext = strkey, GroupId = label_value labels strkey\<rparr> in
          if isValidQuota quotaGroup qmTreeIDs then
            (groups @ [quotaGroup],
             AList.update (GroupContext quotaGroup)
               (GetResourceNames E w (GroupContext quotaGroup)) treeNameToResourceTypes)
          else (groups, treeNameToResourceTypes))"

fun treeFound :: "string \<Rightarrow> QuotaGroup list \<Rightarrow> bool" where
  "treeFound treeName [] = False"
| "treeFound treeName (quotaGroup # groups) =
     (if treeName = GroupContext quotaGroup then True else treeFound treeName groups)"

text \<open>
  The loop over the tree names that writes the missing ones to the message: the buffer
  and \<^verbatim>\<open>numMissingTreesCt\<close> are threaded through.
\<close>

fun missing_trees :: "string list \<Rightarrow> QuotaGroup list \<Rightarrow> string \<times> nat \<Rightarrow> string \<times> nat" where
  "missing_trees [] groups acc = acc"
| "missing_trees (treeName # qmTreeIDs) groups (allocationMessage, numMissingTreesCt) =
     (if treeFound treeName groups then
        missing_trees qmTreeIDs groups (allocationMessage, numMissingTreesCt)
      else
        missing_trees qmTreeIDs groups
          ((if numMissingTreesCt < 1 then allocationMessage @ treeName
            else allocationMessage @ '', '' @ treeName),
           numMissingTreesCt + 1))"

definition getQuotaDesignation ::
  "('w, 'c) Collaborators \<Rightarrow> 'w \<Rightarrow> AppWrapper
     \<Rightarrow> QuotaGroup list \<times> (string \<times> string list) list \<times> string option" where
  "getQuotaDesignation E w aw =
     (let qmTreeIDs = GetTreeNames E w in
      if length qmTreeIDs \<le> 0 then ([], [], None)
      else
        let labels = aw_Labels aw;
            (groups, treeNameToResourceTypes) =
              fold (designation_of_label E w qmTreeIDs labels) (MapKeys labels) ([], [])
        in
        if length groups < length qmTreeIDs then
          let allocationMessage =
                fst (missing_trees qmTreeIDs groups
                       (''Missing required quota designation: '', 0))
          in
          (groups, treeNameToResourceTypes,
           Some (if length allocationMessage > 0 then Errorf0 (allocationMessage @ ''.'')
                 else ''Unknown error verifying quota designations.''))
        else (groups, treeNameToResourceTypes, None))"

section \<open>The quota manager: requests, admission and release\<close>

text \<open>
  The body of the loop of \<^verbatim>\<open>buildRequest\<close> over the quota designations: one consumer tree
  specification each. The error of \<^verbatim>\<open>getQuotaTreeResourceTypesDemands\<close> is logged and
  dropped; the demands are used as they are.
\<close>

definition resource_types_of :: "(string \<times> string list) list \<Rightarrow> string \<Rightarrow> string list" where
  "resource_types_of treeNameToResourceTypes quotaTreeName =
     (case map_of treeNameToResourceTypes quotaTreeName of None \<Rightarrow> [] | Some ts \<Rightarrow> ts)"

definition consumerTreeSpec ::
  "QuotaManager \<Rightarrow> AppWrapper \<Rightarrow> Resource \<Rightarrow> string \<Rightarrow> (string \<times> string list) list
     \<Rightarrow> QuotaGroup \<Rightarrow> JConsumerTreeSpec" where
  "consumerTreeSpec qm aw awResDemands awId treeNameToResourceTypes quotaTreeDesignation =
     (let unPreemptable = \<not> preemptionEnabled qm;
          quotaTreeName = GroupContext quotaTreeDesignation;
          demands =
            fst (getQuotaTreeResourceTypesDemands awResDemands
                   (resource_types_of treeNameToResourceTypes quotaTreeName));
          priority = aw_Priority aw
      in
      \<lparr>tree_ID = awId,
       TreeName = GroupContext quotaTreeDesignation,
       GroupID = GroupId quotaTreeDesignation,
       Request = demands,
       Priority = priority,
       CType = 0,
       UnPreemptable = unPreemptable\<rparr>)"

text \<open>
  The consumer that \<^verbatim>\<open>buildRequest\<close> hands to \<^verbatim>\<open>NewConsumerInfo\<close>, or the error it returns
  before.
\<close>

definition buildConsumer ::
  "('w, 'c) Collaborators \<Rightarrow> QuotaManager \<Rightarrow> 'w \<Rightarrow> AppWrapper \<Rightarrow> Resource
     \<Rightarrow> string + JConsumer" where
  "buildConsumer E qm w aw awResDemands =
     (let awId = CreateId (aw_Namespace aw) (aw_Name aw) in
      if length awId \<le> 0 then
        Inl (''[buildRequest] Request failed due to invalid AppWrapper due to empty namespace: ''
             @ aw_Namespace aw @ '' or name:'' @ aw_Name aw @ ''.'')
      else
        (case getQuotaDesignation E w aw of
           (quotaTreeDesignations, treeNameToResourceTypes, Some err) \<Rightarrow> Inl err
         | (quotaTreeDesignations, treeNameToResourceTypes, None) \<Rightarrow>
             Inr \<lparr>Kind = DefaultConsumerKind E,
                  Spec =
                    \<lparr>spec_ID = awId,
                     Trees =
                       map (consumerTreeSpec qm aw awResDemands awId treeNameToResourceTypes)
                         quotaTreeDesignations\<rparr>\<rparr>))"

definition buildRequest ::
  "('w, 'c) Collaborators \<Rightarrow> QuotaManager \<Rightarrow> 'w \<Rightarrow> AppWrapper \<Rightarrow> Resource \<Rightarrow> string + 'c" where
  "buildRequest E qm w aw awResDemands =
     (case buildConsumer E qm w aw awResDemands of
        Inl err \<Rightarrow> Inl err
      | Inr consumer \<Rightarrow> NewConsumerInfo E consumer)"

definition updateForestFromCache ::
  "('w, 'c) Collaborators \<Rightarrow> 'w World \<Rightarrow> string option \<times> 'w World" where
  "updateForestFromCache E s =
     (case s of
        (w, calls) \<Rightarrow>
          (case UpdateForest E w QuotaManagerForestName of
             (err, w') \<Rightarrow> (err, (w', calls @ [Call_UpdateForest QuotaManagerForestName]))))"

fun getAppWrappers_loop ::
  "('w, 'c) Collaborators \<Rightarrow> 'w \<Rightarrow> string list \<Rightarrow> AppWrapper list \<Rightarrow> AppWrapper list" where
  "getAppWrappers_loop E w [] aws = aws"
| "getAppWrappers_loop E w (preemptId # preemptIds) aws =
     (case ParseId preemptId of
        (awNamespace, awName) \<Rightarrow>
          if length awNamespace \<le> 0 \<or> length awName \<le> 0 then
            getAppWrappers_loop E w preemptIds aws
          else
            (case Lister_Get E w awNamespace awName of
               None \<Rightarrow> getAppWrappers_loop E w preemptIds aws
             | Some aw \<Rightarrow> getAppWrappers_loop E w preemptIds (aws @ [aw])))"

definition getAppWrappers ::
  "('w, 'c) Collaborators \<Rightarrow> 'w \<Rightarrow> string list \<Rightarrow> AppWrapper list" where
  "getAppWrappers E w preemptIds =
     (if length preemptIds \<le> 0 then [] else getAppWrappers_loop E w preemptIds [])"

text \<open>
  The result of \<^verbatim>\<open>Fits\<close>: whether the job fits, the jobs to preempt (\<^verbatim>\<open>nil\<close> is the empty
  list) and the message; beside it the state and the calls after the call.

  \<open>Fits_admit\<close> is \<^verbatim>\<open>Fits\<close> from the refresh of the resource plans to the end, the path of a
  request that passed the two checks at the top.
\<close>

type_synonym FitsResult = "bool \<times> AppWrapper list \<times> string"

definition refreshResourcePlans :: "('w, 'c) Collaborators \<Rightarrow> 'w World \<Rightarrow> 'w World" where
  "refreshResourcePlans E s =
     (case s of
        (w, calls) \<Rightarrow>
          (case IsResplanChanged E w of
             (changed, w1) \<Rightarrow>
               if changed then
                 snd (updateForestFromCache E
                        (LoadResourcePlansIntoBackend E w1,
                         calls @ [Call_IsResplanChanged, Call_LoadResourcePlansIntoBackend]))
               else (w1, calls @ [Call_IsResplanChanged])))"

definition Fits_admit ::
  "('w, 'c) Collaborators \<Rightarrow> QuotaManager \<Rightarrow> AppWrapper \<Rightarrow> Resource \<Rightarrow> 'w World
     \<Rightarrow> FitsResult \<times> 'w World" where
  "Fits_admit E qm aw awResDemands s =
     (case refreshResourcePlans E s of
        (w, calls) \<Rightarrow>
          (case buildRequest E qm w aw awResDemands of
             Inl err \<Rightarrow> ((False, [], err), (w, calls))
           | Inr consumerInfo \<Rightarrow>
               let w1 = AddConsumer E w consumerInfo;
                   consumerID = GetID E consumerInfo
               in
               (case AllocateForest E w1 QuotaManagerForestName consumerID of
                  (allocResponse, w2) \<Rightarrow>
                    let s2 = (w2, calls @ [Call_AddConsumer consumerID,
                                           Call_AllocateForest QuotaManagerForestName consumerID])
                    in
                    (case allocResponse of
                       AllocateError (Some r) err \<Rightarrow>
                         if length (GetMessage r) > 0 then ((False, [], GetMessage r), s2)
                         else ((False, [], err), s2)
                     | AllocateError None err \<Rightarrow> ((False, [], err), s2)
                     | AllocateDone r \<Rightarrow>
                         ((IsAllocated r, getAppWrappers E w2 (GetPreemptedIds r),
                           GetMessage r), s2)))))"

definition Fits ::
  "('w, 'c) Collaborators \<Rightarrow> QuotaManager \<Rightarrow> AppWrapper \<Rightarrow> Resource \<Rightarrow> AppWrapper list
     \<Rightarrow> 'w World \<Rightarrow> FitsResult \<times> 'w World" where
  "Fits E qm aw awResDemands proposedPreemptions s =
     (let doesFit = False in
      if quotaManagerBackend qm = None then
        ((doesFit, [], ''No quota manager backend exists''), s)
      else if GetMode E (fst s) = Maintenance \<and> initializationDone qm then
        ((doesFit, [], ''Quota Manager backend in maintenance mode''), s)
      else Fits_admit E qm aw awResDemands s)"

definition Release ::
  "('w, 'c) Collaborators \<Rightarrow> QuotaManager \<Rightarrow> AppWrapper \<Rightarrow> 'w World \<Rightarrow> bool \<times> 'w World" where
  "Release E qm aw s =
     (let released = False in
      if quotaManagerBackend qm = None then (released, s)
      else
        let awId = CreateId (aw_Namespace aw) (aw_Name aw) in
        if length awId \<le> 0 then (released, s)
        else
          (case s of
             (w, calls) \<Rightarrow>
               (case DeAllocateForest E w QuotaManagerForestName awId of
                  (released, w1) \<Rightarrow>
                    (case RemoveConsumer E w1 awId of
                       ((success, err), w2) \<Rightarrow>
                         (released,
                          (w2, calls @ [Call_DeAllocateForest QuotaManagerForestName awId,
                                        Call_RemoveConsumer awId]))))))"

section \<open>Runs of the ledger, and concrete inputs\<close>

text \<open>
  A sequence of calls on one ledger: the ledger after the last call and the warnings
  logged on the way. A call that returns an error has completed as well.
\<close>

datatype LedgerCall =
    Call_AddTask TaskInfo
  | Call_RemoveTask TaskInfo
  | Call_UpdateTask TaskInfo
  | Call_SetNode Node

fun ledger_call :: "SubSemantics \<Rightarrow> NodeInfo \<Rightarrow> LedgerCall \<Rightarrow> NodeInfo \<times> Warning list" where
  "ledger_call sem ni (Call_AddTask t) = (case AddTask sem ni t of (ni', err, ws) \<Rightarrow> (ni', ws))"
| "ledger_call sem ni (Call_RemoveTask t) =
     (case RemoveTask sem ni t of (ni', err, ws) \<Rightarrow> (ni', ws))"
| "ledger_call sem ni (Call_UpdateTask t) =
     (case UpdateTask sem ni t of (ni', err, ws) \<Rightarrow> (ni', ws))"
| "ledger_call sem ni (Call_SetNode node) = SetNode sem ni node"

fun ledger_run :: "SubSemantics \<Rightarrow> NodeInfo \<Rightarrow> LedgerCall list \<Rightarrow> NodeInfo \<times> Warning list" where
  "ledger_run sem ni [] = (ni, [])"
| "ledger_run sem ni (c # cs) =
     (case ledger_call sem ni c of
        (ni', ws) \<Rightarrow> (case ledger_run sem ni' cs of (ni'', ws') \<Rightarrow> (ni'', ws @ ws')))"

text \<open>The conservation equation \<^verbatim>\<open>Idle + Used == Allocatable\<close>.\<close>

definition conserved :: "NodeInfo \<Rightarrow> bool" where
  "conserved ni = (Add (Idle ni) (Used ni) = Allocatable ni)"

text \<open>A call that binds a node declares the allocatable resources \<open>A\<close>.\<close>

fun declares :: "Resource \<Rightarrow> LedgerCall \<Rightarrow> bool" where
  "declares A (Call_SetNode node) = (NewResource (node_Allocatable node) = A)"
| "declares A c = True"

text \<open>Concrete nodes, tasks and jobs, and a small in-memory backend to run the model on.\<close>

definition example_node :: "string \<Rightarrow> real \<Rightarrow> Node" where
  "example_node name cpu =
     \<lparr>node_Name = name,
      node_Allocatable = \<lparr>MilliCPU = cpu, Memory = 8000000000, GPU = 0\<rparr>,
      node_Capacity = \<lparr>MilliCPU = cpu, Memory = 8000000000, GPU = 0\<rparr>,
      node_Labels = [], node_Unschedulable = False, node_Taints = []\<rparr>"

definition example_task :: "string \<Rightarrow> real \<Rightarrow> TaskStatus \<Rightarrow> TaskInfo" where
  "example_task name cpu st =
     \<lparr>task_Namespace = ''default'', task_Name = name,
      Resreq = \<lparr>MilliCPU = cpu, Memory = 0, GPU = 0\<rparr>,
      Status = st,
      Pod = \<lparr>pod_Namespace = ''default'', pod_Name = name\<rparr>\<rparr>"

definition example_job :: "string \<Rightarrow> (string \<times> string) list \<Rightarrow> AppWrapper" where
  "example_job name labels =
     \<lparr>aw_Namespace = ''default'', aw_Name = name, aw_Labels = labels, aw_Priority = 0\<rparr>"

record Forest =
  forest_mode :: Mode
  forest_trees :: "(string \<times> string list) list"
  forest_plan_changed :: bool
  forest_consumers :: "JConsumer list"
  forest_allocated :: "string list"
  forest_jobs :: "AppWrapper list"

definition in_memory_backend :: "(Forest, JConsumer) Collaborators" where
  "in_memory_backend =
     \<lparr>GetMode = forest_mode,
      GetTreeNames = (\<lambda>w. map fst (forest_trees w)),
      GetResourceNames = (\<lambda>w t. resource_types_of (forest_trees w) t),
      UpdateForest = (\<lambda>w name. (None, w)),
      AddConsumer = (\<lambda>w c. w\<lparr>forest_consumers := forest_consumers w @ [c]\<rparr>),
      AllocateForest =
        (\<lambda>w name cid.
           (AllocateDone \<lparr>IsAllocated = True, GetMessage = [], GetPreemptedIds = []\<rparr>,
            w\<lparr>forest_allocated := forest_allocated w @ [cid]\<rparr>)),
      DeAllocateForest =
        (\<lambda>w name cid.
           (cid \<in> set (forest_allocated w),
            w\<lparr>forest_allocated := removeAll cid (forest_allocated w)\<rparr>)),
      RemoveConsumer =
        (\<lambda>w cid.
           ((cid \<in> set (map (\<lambda>c. spec_ID (Spec c)) (forest_consumers w)), None),
            w\<lparr>forest_consumers :=
                 filter (\<lambda>c. spec_ID (Spec c) \<noteq> cid) (forest_consumers w)\<rparr>)),
      IsResplanChanged = (\<lambda>w. (forest_plan_changed w, w)),
      LoadResourcePlansIntoBackend = (\<lambda>w. w\<lparr>forest_plan_changed := False\<rparr>),
      NewConsumerInfo = Inr,
      GetID = (\<lambda>c. spec_ID (Spec c)),
      DefaultConsumerKind = ''Consumer'',
      Lister_Get =
        (\<lambda>w ns n. find (\<lambda>aw. aw_Namespace aw = ns \<and> aw_Name aw = n) (forest_jobs w))\<rparr>"

definition example_forest :: "Mode \<Rightarrow> (string \<times> string list) list \<Rightarrow> Forest" where
  "example_forest mode trees =
     \<lparr>forest_mode = mode, forest_trees = trees, forest_plan_changed = False,
      forest_consumers = [], forest_allocated = [], forest_jobs = []\<rparr>"

definition example_manager :: "bool \<Rightarrow> QuotaManager" where
  "example_manager done =
     \<lparr>preemptionEnabled = False, quotaManagerBackend = Some (), initializationDone = done\<rparr>"

section \<open>Notions used in the statements\<close>

text \<open>A ledger that is bound, satisfies the conservation equation and declares \<open>A\<close>.\<close>

definition bound_conserved :: "Resource \<Rightarrow> NodeInfo \<Rightarrow> bool" where
  "bound_conserved A ni = (Node ni \<noteq> None \<and> conserved ni \<and> Allocatable ni = A)"

text \<open>
  The names of a list joined by a comma and a space, and the known tree names for which
  a job has no label.
\<close>

fun comma_tail :: "string list \<Rightarrow> string" where
  "comma_tail [] = []"
| "comma_tail (t # ts) = '', '' @ t @ comma_tail ts"

fun comma_join :: "string list \<Rightarrow> string" where
  "comma_join [] = []"
| "comma_join (t # ts) = t @ comma_tail ts"

definition missing_labels :: "AppWrapper \<Rightarrow> string list \<Rightarrow> string list" where
  "missing_labels aw qmTreeIDs = filter (\<lambda>t. t \<notin> set (map fst (aw_Labels aw))) qmTreeIDs"

text \<open>
  The demand that the three rules of \<^verbatim>\<open>getQuotaTreeResourceTypesDemands\<close> leave for a
  resource type: the rules are tried in the order cpu, memory, gpu and each one that
  matches overwrites the entry, so the last rule that matches decides.
\<close>

definition demand_for :: "Resource \<Rightarrow> string \<Rightarrow> int option" where
  "demand_for awResDemands treeResourceType =
     (if Contains (ToLower treeResourceType) ''gpu'' then
        Some (fst (convertInt64Demand (GPU awResDemands)))
      else if Contains (ToLower treeResourceType) ''memory'' then
        Some (fst (convertFloat64Demand (Memory awResDemands / 1000000)))
      else if Contains (ToLower treeResourceType) ''cpu'' then
        Some (fst (convertFloat64Demand (MilliCPU awResDemands)))
      else None)"

section \<open>Resource arithmetic\<close>

lemma Sub_no_underflow: "\<not> snd (Sub sem r rr) \<Longrightarrow> fst (Sub sem r rr) = Difference r rr"
  by (cases sem) (auto simp: Sub_def Let_def Underflows_def Difference_def max_def)

lemma Sub_RawDifference: "fst (Sub RawDifference r rr) = Difference r rr"
  by (simp add: Sub_def Let_def)

lemma Sub_quiet:
  "sem = RawDifference \<or> \<not> snd (Sub sem r rr) \<Longrightarrow> fst (Sub sem r rr) = Difference r rr"
  using Sub_no_underflow Sub_RawDifference by blast

lemma Add_Difference_Add: "Add (Difference a r) (Add u r) = Add a u"
  by (simp add: Add_def Difference_def)

lemma Add_Add_Difference: "Add (Add a r) (Difference u r) = Add a u"
  by (simp add: Add_def Difference_def)

lemma Difference_Add: "Difference (Add a r) r = a"
  by (simp add: Add_def Difference_def)

lemma Add_Difference: "Add (Difference a r) r = a"
  by (simp add: Add_def Difference_def)

lemma warn_if_Nil: "warn_if err w = [] \<longleftrightarrow> \<not> err"
  by (simp add: warn_if_def)

lemma delete_update_absent: "map_of al k = None \<Longrightarrow> AList.delete k (AList.update k v al) = al"
  by (induction al) (auto split: if_splits)

text \<open>The definitions that a run of the ledger on concrete inputs unfolds.\<close>

lemmas ledger_eval =
  AddTask_def RemoveTask_def UpdateTask_def PipelineTask_def SetNode_def NewNodeInfo_def
  example_node_def example_task_def PodKey_def Clone_task_def Sub_def Difference_def
  Underflows_def Add_def NewResource_def EmptyResource_def warn_if_def conserved_def Let_def

section \<open>The ledger operations, case by case\<close>

lemma AddTask_bound:
  assumes "map_of (Tasks ni) (PodKey (Pod t)) = None" and "Node ni \<noteq> None"
  shows "AddTask sem ni t =
           (ni\<lparr>Releasing := (if Status t = TaskStatus.Releasing
                               then Add (Releasing ni) (Resreq t) else Releasing ni),
               Idle := fst (Sub sem (Idle ni) (Resreq t)),
               Used := Add (Used ni) (Resreq t),
               Tasks := AList.update (PodKey (Pod t)) t (Tasks ni)\<rparr>,
            None,
            warn_if (snd (Sub sem (Idle ni) (Resreq t))) AddTask_idle_subtract)"
  using assms
  by (cases "Sub sem (Idle ni) (Resreq t)") (simp add: AddTask_def Let_def Clone_task_def)

lemma AddTask_unbound:
  assumes "map_of (Tasks ni) (PodKey (Pod t)) = None" and "Node ni = None"
  shows "AddTask sem ni t =
           (ni\<lparr>Tasks := AList.update (PodKey (Pod t)) t (Tasks ni)\<rparr>, None, [])"
  using assms by (simp add: AddTask_def Let_def Clone_task_def)

lemma AddTask_duplicate:
  assumes "map_of (Tasks ni) (PodKey (Pod t)) \<noteq> None"
  shows "fst (AddTask sem ni t) = ni" and "snd (snd (AddTask sem ni t)) = []"
  using assms by (auto simp: AddTask_def Let_def)

lemma RemoveTask_bound:
  assumes "map_of (Tasks ni) (PodKey (Pod ti)) = Some task" and "Node ni \<noteq> None"
  shows "RemoveTask sem ni ti =
           (ni\<lparr>Releasing := (if Status task = TaskStatus.Releasing
                               then fst (Sub sem (Releasing ni) (Resreq task))
                               else Releasing ni),
               Idle := Add (Idle ni) (Resreq task),
               Used := fst (Sub sem (Used ni) (Resreq task)),
               Tasks := AList.delete (PodKey (Pod ti)) (Tasks ni)\<rparr>,
            None,
            warn_if (Status task = TaskStatus.Releasing
                     \<and> snd (Sub sem (Releasing ni) (Resreq task)))
              RemoveTask_release_subtraction
            @ warn_if (snd (Sub sem (Used ni) (Resreq task))) RemoveTask_usage_subtraction)"
  using assms
  by (cases "Sub sem (Used ni) (Resreq task)"; cases "Sub sem (Releasing ni) (Resreq task)")
     (simp add: RemoveTask_def Let_def warn_if_def)

lemma RemoveTask_unbound:
  assumes "map_of (Tasks ni) (PodKey (Pod ti)) = Some task" and "Node ni = None"
  shows "RemoveTask sem ni ti =
           (ni\<lparr>Tasks := AList.delete (PodKey (Pod ti)) (Tasks ni)\<rparr>, None, [])"
  using assms by (simp add: RemoveTask_def Let_def)

lemma RemoveTask_absent:
  assumes "map_of (Tasks ni) (PodKey (Pod ti)) = None"
  shows "fst (RemoveTask sem ni ti) = ni" and "snd (snd (RemoveTask sem ni ti)) = []"
  using assms by (auto simp: RemoveTask_def Let_def)

lemma SetNode_rebind:
  "Node ni \<noteq> None \<Longrightarrow>
   SetNode sem ni node =
     (ni\<lparr>Name := node_Name node, Node := Some node,
         Allocatable := NewResource (node_Allocatable node),
         Capability := NewResource (node_Capacity node),
         Labels := node_Labels node,
         Unschedulable := node_Unschedulable node,
         Taints := node_Taints node\<rparr>, [])"
  by (auto simp: SetNode_def)

section \<open>Failed calls leave the ledger as it was\<close>

text \<open>
  Claim C6. \<^verbatim>\<open>AddTask\<close> with a task whose id is already in the task map returns the
  duplicate-task error and the ledger it was given: the pools \<^verbatim>\<open>Idle\<close>, \<^verbatim>\<open>Used\<close>,
  \<^verbatim>\<open>Releasing\<close>, the task map and every other field are unchanged, and nothing is logged.
  \<^verbatim>\<open>RemoveTask\<close> with a task whose id is not in the task map returns the task-not-found
  error and the ledger it was given. Both hold for either reading of \<^verbatim>\<open>Sub\<close>.
\<close>

theorem ledger_errors_leave_state:
  "(map_of (Tasks ni) (PodKey (Pod task)) \<noteq> None \<longrightarrow>
      AddTask sem ni task =
        (ni,
         Some (''task <'' @ task_Namespace task @ ''/'' @ task_Name task
               @ ''> already on node <'' @ Name ni @ ''>''),
         []))
   \<and> (map_of (Tasks ni) (PodKey (Pod ti)) = None \<longrightarrow>
      RemoveTask sem ni ti =
        (ni,
         Some (''failed to find task <'' @ task_Namespace ti @ ''/'' @ task_Name ti
               @ ''> on host <'' @ Name ni @ ''>''),
         []))"
  by (auto simp: AddTask_def RemoveTask_def Let_def)

text \<open>
  The example of the specification: a node with 4000 millicores, a task of 1000 added
  once; adding it again and removing an unknown task fail and leave 3000 idle, 1000 used.
\<close>

theorem ledger_errors_leave_state_witness:
  "(let ni = fst (AddTask ClampToZero (NewNodeInfo (Some (example_node ''n1'' 4000)))
                    (example_task ''t1'' 1000 Running))
    in MilliCPU (Idle ni) = 3000 \<and> MilliCPU (Used ni) = 1000
       \<and> map_of (Tasks ni) ''default/t1'' \<noteq> None
       \<and> map_of (Tasks ni) ''default/t2'' = None
       \<and> AddTask ClampToZero ni (example_task ''t1'' 1000 Running)
           = (ni, Some ''task <default/t1> already on node <n1>'', [])
       \<and> RemoveTask ClampToZero ni (example_task ''t2'' 500 Running)
           = (ni, Some ''failed to find task <default/t2> on host <n1>'', []))"
  using ledger_errors_leave_state
          [of "fst (AddTask ClampToZero (NewNodeInfo (Some (example_node ''n1'' 4000)))
                      (example_task ''t1'' 1000 Running))"
              "example_task ''t1'' 1000 Running" ClampToZero
              "example_task ''t2'' 500 Running"]
  by (simp add: ledger_eval)

section \<open>The frame of PipelineTask\<close>



section \<open>Binding a node again\<close>



section \<open>Adding and then removing a task\<close>

text \<open>
  Claim C2, as amended. Let a task that the ledger does not track be added and then
  removed. Both calls succeed. If neither call logs a subtraction warning, or \<^verbatim>\<open>Sub\<close>
  applies the raw difference, then \<^verbatim>\<open>Idle\<close>, \<^verbatim>\<open>Used\<close> and \<^verbatim>\<open>Releasing\<close> (and the task
  map) are exactly what they were before \<^verbatim>\<open>AddTask\<close>. A warning is logged when the
  request exceeds \<^verbatim>\<open>Idle\<close> in some dimension, or when \<^verbatim>\<open>Used\<close> or \<^verbatim>\<open>Releasing\<close> would go
  negative on removal.
\<close>

theorem AddTask_RemoveTask_round_trip:
  assumes "map_of (Tasks ni) (PodKey (Pod t)) = None"
      and "AddTask sem ni t = (ni1, err1, ws1)"
      and "RemoveTask sem ni1 t = (ni2, err2, ws2)"
      and "sem = RawDifference \<or> (ws1 = [] \<and> ws2 = [])"
  shows "err1 = None \<and> err2 = None \<and> Idle ni2 = Idle ni \<and> Used ni2 = Used ni
         \<and> Releasing ni2 = Releasing ni \<and> Tasks ni2 = Tasks ni"
proof (cases "Node ni = None")
  case True
  from assms(2) have ni1: "ni1 = ni\<lparr>Tasks := AList.update (PodKey (Pod t)) t (Tasks ni)\<rparr>"
    and e1: "err1 = None"
    by (auto simp: AddTask_unbound [OF assms(1) True])
  have look: "map_of (Tasks ni1) (PodKey (Pod t)) = Some t"
    by (simp add: ni1 update_conv')
  from True have "Node ni1 = None" by (simp add: ni1)
  from assms(3) RemoveTask_unbound [OF look this]
  show ?thesis by (auto simp: e1 ni1 delete_update_absent assms(1))
next
  case False
  define r where "r = Resreq t"
  from assms(2) have ni1:
    "ni1 = ni\<lparr>Releasing := (if Status t = TaskStatus.Releasing then Add (Releasing ni) r
                              else Releasing ni),
              Idle := fst (Sub sem (Idle ni) r), Used := Add (Used ni) r,
              Tasks := AList.update (PodKey (Pod t)) t (Tasks ni)\<rparr>"
    and e1: "err1 = None"
    and w1: "ws1 = warn_if (snd (Sub sem (Idle ni) r)) AddTask_idle_subtract"
    by (auto simp: AddTask_bound [OF assms(1) False] r_def)
  have look: "map_of (Tasks ni1) (PodKey (Pod t)) = Some t"
    by (simp add: ni1 update_conv')
  from False have bound1: "Node ni1 \<noteq> None" by (simp add: ni1)
  from assms(3) have ni2:
    "ni2 = ni1\<lparr>Releasing := (if Status t = TaskStatus.Releasing
                               then fst (Sub sem (Releasing ni1) r) else Releasing ni1),
               Idle := Add (Idle ni1) r, Used := fst (Sub sem (Used ni1) r),
               Tasks := AList.delete (PodKey (Pod t)) (Tasks ni1)\<rparr>"
    and e2: "err2 = None"
    and w2: "ws2 = warn_if (Status t = TaskStatus.Releasing \<and> snd (Sub sem (Releasing ni1) r))
                     RemoveTask_release_subtraction
                   @ warn_if (snd (Sub sem (Used ni1) r)) RemoveTask_usage_subtraction"
    by (auto simp: RemoveTask_bound [OF look bound1] r_def)
  from assms(4) w1 have q1: "fst (Sub sem (Idle ni) r) = Difference (Idle ni) r"
    by (intro Sub_quiet) (auto simp: warn_if_Nil)
  from assms(4) w2 have q2: "fst (Sub sem (Used ni1) r) = Difference (Used ni1) r"
    by (intro Sub_quiet) (auto simp: warn_if_Nil)
  from assms(4) w2 have q3:
    "Status t = TaskStatus.Releasing \<Longrightarrow>
     fst (Sub sem (Releasing ni1) r) = Difference (Releasing ni1) r"
    by (intro Sub_quiet) (auto simp: warn_if_Nil)
  have "Idle ni2 = Idle ni"
    by (simp add: ni2 ni1 q1 Add_Difference)
  moreover have "Used ni2 = Used ni"
    using q2 by (simp add: ni2 ni1 Difference_Add)
  moreover have "Releasing ni2 = Releasing ni"
    using q3 by (simp add: ni2 ni1 Difference_Add)
  moreover have "Tasks ni2 = Tasks ni"
    by (simp add: ni2 ni1 delete_update_absent assms(1))
  ultimately show ?thesis using e1 e2 by simp
qed

text \<open>A releasing task of 1000 millicores on a node with 4000: no warning, pools restored.\<close>

theorem AddTask_RemoveTask_round_trip_witness:
  "(let ni = NewNodeInfo (Some (example_node ''n1'' 4000));
        t = example_task ''t1'' 1000 TaskStatus.Releasing;
        r1 = AddTask ClampToZero ni t;
        r2 = RemoveTask ClampToZero (fst r1) t
    in map_of (Tasks ni) (PodKey (Pod t)) = None
       \<and> snd r1 = (None, []) \<and> snd r2 = (None, [])
       \<and> MilliCPU (Idle (fst r1)) = 3000 \<and> MilliCPU (Used (fst r1)) = 1000
       \<and> MilliCPU (Releasing (fst r1)) = 1000
       \<and> Idle (fst r2) = Idle ni \<and> Used (fst r2) = Used ni
       \<and> Releasing (fst r2) = Releasing ni \<and> Tasks (fst r2) = Tasks ni)"
  using AddTask_RemoveTask_round_trip
          [of "NewNodeInfo (Some (example_node ''n1'' 4000))"
              "example_task ''t1'' 1000 TaskStatus.Releasing" ClampToZero
              "fst (AddTask ClampToZero (NewNodeInfo (Some (example_node ''n1'' 4000)))
                      (example_task ''t1'' 1000 TaskStatus.Releasing))"
              None "[]"
              "fst (RemoveTask ClampToZero
                      (fst (AddTask ClampToZero (NewNodeInfo (Some (example_node ''n1'' 4000)))
                              (example_task ''t1'' 1000 TaskStatus.Releasing)))
                      (example_task ''t1'' 1000 TaskStatus.Releasing))"
              None "[]"]
  by (simp add: ledger_eval)

text \<open>
  The claim as stated fails when \<^verbatim>\<open>Sub\<close> clamps: a task of 2000 millicores on a node with
  1000 idle is added (\<^verbatim>\<open>Idle\<close> is clamped to 0) and removed (\<^verbatim>\<open>Idle\<close> becomes 2000).
\<close>

theorem round_trip_counterexample:
  "(let ni = NewNodeInfo (Some (example_node ''n1'' 1000));
        t = example_task ''t1'' 2000 Running;
        r1 = AddTask ClampToZero ni t;
        r2 = RemoveTask ClampToZero (fst r1) t
    in map_of (Tasks ni) (PodKey (Pod t)) = None
       \<and> fst (snd r1) = None \<and> fst (snd r2) = None
       \<and> MilliCPU (Idle ni) = 1000
       \<and> MilliCPU (Idle (fst r1)) = 0
       \<and> MilliCPU (Idle (fst r2)) = 2000)"
  by (simp add: ledger_eval)

section \<open>Conservation of the allocatable resources\<close>

lemma AddTask_preserves:
  assumes "bound_conserved A ni" and "AddTask sem ni t = (ni', err, ws)"
      and "sem = RawDifference \<or> ws = []"
  shows "bound_conserved A ni'"
proof (cases "map_of (Tasks ni) (PodKey (Pod t)) = None")
  case False
  with assms(2) AddTask_duplicate(1) [OF False, of sem] have "ni' = ni" by simp
  with assms(1) show ?thesis by simp
next
  case True
  from assms(1) have b: "Node ni \<noteq> None" by (simp add: bound_conserved_def)
  from assms(2) AddTask_bound [OF True b, of sem]
  have ni': "Idle ni' = fst (Sub sem (Idle ni) (Resreq t))" "Used ni' = Add (Used ni) (Resreq t)"
    "Allocatable ni' = Allocatable ni" "Node ni' = Node ni"
    and ws: "ws = warn_if (snd (Sub sem (Idle ni) (Resreq t))) AddTask_idle_subtract"
    by auto
  from assms(3) ws have "fst (Sub sem (Idle ni) (Resreq t)) = Difference (Idle ni) (Resreq t)"
    by (intro Sub_quiet) (auto simp: warn_if_Nil)
  with ni' assms(1) show ?thesis
    by (simp add: bound_conserved_def conserved_def Add_Difference_Add)
qed

lemma RemoveTask_preserves:
  assumes "bound_conserved A ni" and "RemoveTask sem ni t = (ni', err, ws)"
      and "sem = RawDifference \<or> ws = []"
  shows "bound_conserved A ni'"
proof (cases "map_of (Tasks ni) (PodKey (Pod t))")
  case None
  with assms(2) RemoveTask_absent(1) [OF None, of sem] have "ni' = ni" by simp
  with assms(1) show ?thesis by simp
next
  case (Some task)
  from assms(1) have b: "Node ni \<noteq> None" by (simp add: bound_conserved_def)
  from assms(2) RemoveTask_bound [OF Some b, of sem]
  have ni': "Idle ni' = Add (Idle ni) (Resreq task)"
    "Used ni' = fst (Sub sem (Used ni) (Resreq task))"
    "Allocatable ni' = Allocatable ni" "Node ni' = Node ni"
    and ws: "ws = warn_if (Status task = TaskStatus.Releasing
                           \<and> snd (Sub sem (Releasing ni) (Resreq task)))
                    RemoveTask_release_subtraction
                  @ warn_if (snd (Sub sem (Used ni) (Resreq task))) RemoveTask_usage_subtraction"
    by auto
  from assms(3) ws have "fst (Sub sem (Used ni) (Resreq task)) = Difference (Used ni) (Resreq task)"
    by (intro Sub_quiet) (auto simp: warn_if_Nil)
  with ni' assms(1) show ?thesis
    by (simp add: bound_conserved_def conserved_def Add_Add_Difference)
qed

lemma UpdateTask_preserves:
  assumes "bound_conserved A ni" and "UpdateTask sem ni t = (ni', err, ws)"
      and "sem = RawDifference \<or> ws = []"
  shows "bound_conserved A ni'"
proof -
  obtain ni1 e1 w1 where r: "RemoveTask sem ni t = (ni1, e1, w1)"
    by (cases "RemoveTask sem ni t") auto
  show ?thesis
  proof (cases e1)
    case (Some e)
    with r assms(2) have "ni' = ni1" "ws = w1" by (auto simp: UpdateTask_def)
    with RemoveTask_preserves [OF assms(1) r] assms(3) show ?thesis by simp
  next
    case None
    obtain ni2 e2 w2 where a: "AddTask sem ni1 t = (ni2, e2, w2)"
      by (cases "AddTask sem ni1 t") auto
    with None r assms(2) have eq: "ni' = ni2" "ws = w1 @ w2" by (auto simp: UpdateTask_def)
    with assms(3) have "sem = RawDifference \<or> w1 = []" "sem = RawDifference \<or> w2 = []" by auto
    with RemoveTask_preserves [OF assms(1) r] AddTask_preserves [OF _ a] eq show ?thesis by simp
  qed
qed

lemma ledger_call_preserves:
  assumes "bound_conserved A ni" and "declares A c" and "ledger_call sem ni c = (ni', ws)"
      and "sem = RawDifference \<or> ws = []"
  shows "bound_conserved A ni'"
proof (cases c)
  case (Call_AddTask t)
  with assms(3) obtain err where "AddTask sem ni t = (ni', err, ws)"
    by (cases "AddTask sem ni t") auto
  from AddTask_preserves [OF assms(1) this assms(4)] show ?thesis .
next
  case (Call_RemoveTask t)
  with assms(3) obtain err where "RemoveTask sem ni t = (ni', err, ws)"
    by (cases "RemoveTask sem ni t") auto
  from RemoveTask_preserves [OF assms(1) this assms(4)] show ?thesis .
next
  case (Call_UpdateTask t)
  with assms(3) obtain err where "UpdateTask sem ni t = (ni', err, ws)"
    by (cases "UpdateTask sem ni t") auto
  from UpdateTask_preserves [OF assms(1) this assms(4)] show ?thesis .
next
  case (Call_SetNode node)
  from assms(1) have b: "Node ni \<noteq> None" by (simp add: bound_conserved_def)
  from Call_SetNode assms(3) SetNode_rebind [OF b, of sem node]
  have "Idle ni' = Idle ni" "Used ni' = Used ni" "Node ni' \<noteq> None"
    "Allocatable ni' = NewResource (node_Allocatable node)"
    by auto
  with assms(1,2) Call_SetNode show ?thesis
    by (simp add: bound_conserved_def conserved_def)
qed

lemma ledger_run_preserves:
  assumes "bound_conserved A ni" and "list_all (declares A) cs"
      and "sem = RawDifference \<or> snd (ledger_run sem ni cs) = []"
  shows "bound_conserved A (fst (ledger_run sem ni cs))"
  using assms
proof (induction cs arbitrary: ni)
  case Nil
  then show ?case by simp
next
  case (Cons c cs)
  obtain ni' ws where c: "ledger_call sem ni c = (ni', ws)"
    by (cases "ledger_call sem ni c") auto
  obtain ni'' ws' where r: "ledger_run sem ni' cs = (ni'', ws')"
    by (cases "ledger_run sem ni' cs") auto
  from Cons.prems(3) c r have q: "sem = RawDifference \<or> ws = []"
    "sem = RawDifference \<or> snd (ledger_run sem ni' cs) = []" by auto
  from Cons.prems(2) have d: "declares A c" "list_all (declares A) cs" by auto
  from ledger_call_preserves [OF Cons.prems(1) d(1) c q(1)]
  have "bound_conserved A ni'" .
  from Cons.IH [OF this d(2) q(2)] c r show ?case by simp
qed

lemma ledger_run_append:
  "ledger_run sem ni (xs @ ys) =
     (case ledger_run sem ni xs of
        (ni', ws) \<Rightarrow> (case ledger_run sem ni' ys of (ni'', ws') \<Rightarrow> (ni'', ws @ ws')))"
  by (induction xs arbitrary: ni) (auto split: prod.splits)

lemma ledger_run_take_quiet:
  assumes "snd (ledger_run sem ni cs) = []"
  shows "snd (ledger_run sem ni (take k cs)) = []"
proof -
  have "ledger_run sem ni cs = ledger_run sem ni (take k cs @ drop k cs)" by simp
  also have "\<dots> = (case ledger_run sem ni (take k cs) of
        (ni', ws) \<Rightarrow> (case ledger_run sem ni' (drop k cs) of (ni'', ws') \<Rightarrow> (ni'', ws @ ws')))"
    by (rule ledger_run_append)
  finally show ?thesis using assms by (auto split: prod.splits)
qed

lemma NewNodeInfo_bound_conserved:
  "bound_conserved (NewResource (node_Allocatable node)) (NewNodeInfo (Some node))"
  by (simp add: bound_conserved_def conserved_def NewNodeInfo_def Add_def EmptyResource_def
        NewResource_def)

text \<open>
  Claim C1, as amended. Start from a ledger freshly bound to a node and make any sequence
  of \<^verbatim>\<open>AddTask\<close>, \<^verbatim>\<open>RemoveTask\<close>, \<^verbatim>\<open>UpdateTask\<close> and \<^verbatim>\<open>SetNode\<close> calls in which every
  \<^verbatim>\<open>SetNode\<close> declares the allocatable resources of the first node. If no call logs a
  subtraction warning, or \<^verbatim>\<open>Sub\<close> applies the raw difference, then
  \<^verbatim>\<open>Idle + Used == Allocatable\<close> holds after every call of the sequence.
\<close>

theorem ledger_conservation:
  assumes "list_all (declares (NewResource (node_Allocatable node))) cs"
      and "sem = RawDifference \<or> snd (ledger_run sem (NewNodeInfo (Some node)) cs) = []"
  shows "\<forall>k \<le> length cs.
           conserved (fst (ledger_run sem (NewNodeInfo (Some node)) (take k cs)))"
proof (intro allI impI)
  fix k assume "k \<le> length cs"
  from assms(1) have d: "list_all (declares (NewResource (node_Allocatable node))) (take k cs)"
    by (auto simp: list_all_iff dest: in_set_takeD)
  from assms(2) have q:
    "sem = RawDifference \<or> snd (ledger_run sem (NewNodeInfo (Some node)) (take k cs)) = []"
    using ledger_run_take_quiet by blast
  from ledger_run_preserves [OF NewNodeInfo_bound_conserved d q]
  show "conserved (fst (ledger_run sem (NewNodeInfo (Some node)) (take k cs)))"
    by (simp add: bound_conserved_def)
qed

text \<open>
  A run on a node with 4000 millicores: a task is added, added again (an error), updated
  to a larger releasing task, the node is bound again with the same resources, and the
  task is removed. Nothing is logged and the equation holds on the way and at the end.
\<close>

theorem ledger_conservation_witness:
  "(let cs = [Call_AddTask (example_task ''t1'' 1000 Running),
              Call_AddTask (example_task ''t1'' 1000 Running),
              Call_UpdateTask (example_task ''t1'' 1500 TaskStatus.Releasing),
              Call_SetNode (example_node ''n1b'' 4000),
              Call_RemoveTask (example_task ''t1'' 0 Running)];
        ni = NewNodeInfo (Some (example_node ''n1'' 4000))
    in list_all (declares (NewResource (node_Allocatable (example_node ''n1'' 4000)))) cs
       \<and> snd (ledger_run ClampToZero ni cs) = []
       \<and> MilliCPU (Idle (fst (ledger_run ClampToZero ni (take 3 cs)))) = 2500
       \<and> MilliCPU (Used (fst (ledger_run ClampToZero ni (take 3 cs)))) = 1500
       \<and> conserved (fst (ledger_run ClampToZero ni (take 3 cs)))
       \<and> Name (fst (ledger_run ClampToZero ni cs)) = ''n1b''
       \<and> conserved (fst (ledger_run ClampToZero ni cs)))"
  using ledger_conservation
          [of "example_node ''n1'' 4000"
              "[Call_AddTask (example_task ''t1'' 1000 Running),
                Call_AddTask (example_task ''t1'' 1000 Running),
                Call_UpdateTask (example_task ''t1'' 1500 TaskStatus.Releasing),
                Call_SetNode (example_node ''n1b'' 4000),
                Call_RemoveTask (example_task ''t1'' 0 Running)]"
              ClampToZero]
  by (simp add: ledger_eval)

text \<open>
  The claim as stated fails in two ways. Binding a bound ledger to a node that declares
  other resources replaces \<^verbatim>\<open>Allocatable\<close> and leaves the pools, under either reading of
  \<^verbatim>\<open>Sub\<close>: 4000 idle, nothing used, 8000 allocatable. And when \<^verbatim>\<open>Sub\<close> clamps, a task of
  5000 millicores added to a node with 4000 leaves nothing idle and 5000 used.
\<close>

theorem ledger_conservation_counterexample:
  "\<not> conserved (fst (ledger_run ClampToZero (NewNodeInfo (Some (example_node ''n1'' 4000)))
                       [Call_SetNode (example_node ''n2'' 8000)]))
   \<and> \<not> conserved (fst (ledger_run RawDifference (NewNodeInfo (Some (example_node ''n1'' 4000)))
                         [Call_SetNode (example_node ''n2'' 8000)]))
   \<and> \<not> conserved (fst (ledger_run ClampToZero (NewNodeInfo (Some (example_node ''n1'' 4000)))
                         [Call_AddTask (example_task ''t1'' 5000 Running)]))"
  by (simp add: ledger_eval)

section \<open>The checks at the top of Fits\<close>

text \<open>The definitions that a run of the quota manager on concrete inputs unfolds.\<close>

lemmas quota_eval =
  Fits_def Fits_admit_def Release_def refreshResourcePlans_def updateForestFromCache_def
  buildRequest_def buildConsumer_def example_job_def example_manager_def CreateId_def
  getQuotaDesignation_def in_memory_backend_def example_forest_def MapKeys_def
  designation_of_label_def label_value_def QuotaManagerForestName_def getAppWrappers_def
  consumerTreeSpec_def resource_types_of_def getQuotaTreeResourceTypesDemands_def
  demand_of_type_def store_demand_def ToLower_def lower_byte_def Let_def



text \<open>
  Claim C9. When no backend is attached, \<^verbatim>\<open>Fits\<close> returns \<open>false\<close>, no jobs to preempt and
  the message \<^verbatim>\<open>No quota manager backend exists\<close>, for every job, demand and proposed
  preemptions; the state behind the quota manager is untouched and no call is recorded.
\<close>

theorem Fits_without_backend:
  "Fits E (qm\<lparr>quotaManagerBackend := None\<rparr>) aw awResDemands proposedPreemptions s =
     ((False, [], ''No quota manager backend exists''), s)"
  by (simp add: Fits_def)

text \<open>The same on the in-memory backend.\<close>

theorem Fits_without_backend_witness:
  "Fits in_memory_backend ((example_manager True)\<lparr>quotaManagerBackend := None\<rparr>)
     (example_job ''j'' [(''A'', ''g1'')]) \<lparr>MilliCPU = 1000, Memory = 0, GPU = 0\<rparr> []
     (example_forest Normal [(''A'', [''cpu''])], [])
   = ((False, [], ''No quota manager backend exists''),
      (example_forest Normal [(''A'', [''cpu''])], []))"
  using Fits_without_backend
          [of in_memory_backend "example_manager True" "example_job ''j'' [(''A'', ''g1'')]"
              "\<lparr>MilliCPU = 1000, Memory = 0, GPU = 0\<rparr>" "[]"
              "(example_forest Normal [(''A'', [''cpu''])], [])"]
  by simp



section \<open>Release\<close>

text \<open>
  Claim C8. For a job whose id can be formed and an attached backend, whatever the state
  of the backend (the job may never have been admitted), \<^verbatim>\<open>Release\<close> calls
  \<^verbatim>\<open>DeAllocateForest\<close> and then \<^verbatim>\<open>RemoveConsumer\<close>, on the state the deallocation left,
  and returns the result of \<^verbatim>\<open>DeAllocateForest\<close>: the result of \<^verbatim>\<open>RemoveConsumer\<close> is not
  part of what is returned.
\<close>

theorem Release_returns_deallocation:
  assumes "quotaManagerBackend qm \<noteq> None"
      and "CreateId (aw_Namespace aw) (aw_Name aw) \<noteq> []"
  shows "Release E qm aw (w, calls) =
           (fst (DeAllocateForest E w QuotaManagerForestName
                   (CreateId (aw_Namespace aw) (aw_Name aw))),
            (snd (RemoveConsumer E
                    (snd (DeAllocateForest E w QuotaManagerForestName
                            (CreateId (aw_Namespace aw) (aw_Name aw))))
                    (CreateId (aw_Namespace aw) (aw_Name aw))),
             calls @ [Call_DeAllocateForest QuotaManagerForestName
                        (CreateId (aw_Namespace aw) (aw_Name aw)),
                      Call_RemoveConsumer (CreateId (aw_Namespace aw) (aw_Name aw))]))"
  using assms by (auto simp: Release_def Let_def split: prod.splits)

text \<open>
  A job that is allocated in the forest but has no consumer definition: the removal
  fails and \<^verbatim>\<open>Release\<close> returns \<open>true\<close>. A job that was never admitted: both steps are
  made and \<^verbatim>\<open>Release\<close> returns \<open>false\<close>.
\<close>

theorem Release_returns_deallocation_witness:
  "quotaManagerBackend (example_manager True) \<noteq> None
   \<and> CreateId (aw_Namespace (example_job ''j'' [])) (aw_Name (example_job ''j'' [])) = ''default/j''
   \<and> Release in_memory_backend (example_manager True) (example_job ''j'' [])
        ((example_forest Normal [(''A'', [''cpu''])])\<lparr>forest_allocated := [''default/j'']\<rparr>, [])
      = (True,
         (example_forest Normal [(''A'', [''cpu''])],
          [Call_DeAllocateForest ''MCAD-CONTROLLER-FOREST'' ''default/j'',
           Call_RemoveConsumer ''default/j'']))
   \<and> fst (RemoveConsumer in_memory_backend (example_forest Normal [(''A'', [''cpu''])])
             ''default/j'') = (False, None)
   \<and> Release in_memory_backend (example_manager True) (example_job ''j'' [])
        (example_forest Normal [(''A'', [''cpu''])], [])
      = (False,
         (example_forest Normal [(''A'', [''cpu''])],
          [Call_DeAllocateForest ''MCAD-CONTROLLER-FOREST'' ''default/j'',
           Call_RemoveConsumer ''default/j'']))"
  using Release_returns_deallocation
          [of "example_manager True" "example_job ''j'' []" in_memory_backend
              "(example_forest Normal [(''A'', [''cpu''])])\<lparr>forest_allocated := [''default/j'']\<rparr>"
              "[]"]
  by (simp add: quota_eval)

section \<open>Missing quota designations\<close>

lemma isValidQuota_iff: "isValidQuota g ids \<longleftrightarrow> GroupContext g \<in> set ids"
  by (induction ids) auto

lemma treeFound_iff: "treeFound t groups \<longleftrightarrow> t \<in> GroupContext ` set groups"
  by (induction groups) auto

lemma fold_designation_groups:
  "fst (fold (designation_of_label E w ids labels) ks (groups, t2r)) =
     groups @ map (\<lambda>k. \<lparr>GroupContext = k, GroupId = label_value labels k\<rparr>)
                (filter (\<lambda>k. k \<in> set ids) ks)"
  by (induction ks arbitrary: groups t2r)
     (auto simp: designation_of_label_def Let_def isValidQuota_iff)

lemma missing_trees_later:
  "1 \<le> n \<Longrightarrow>
   fst (missing_trees ids groups (msg, n)) =
     msg @ comma_tail (filter (\<lambda>t. \<not> treeFound t groups) ids)"
  by (induction ids arbitrary: msg n) auto

lemma missing_trees_first:
  "fst (missing_trees ids groups (msg, 0)) =
     msg @ comma_join (filter (\<lambda>t. \<not> treeFound t groups) ids)"
proof (induction ids)
  case Nil
  show ?case by simp
next
  case (Cons t ids)
  show ?case
  proof (cases "treeFound t groups")
    case True
    with Cons show ?thesis by simp
  next
    case False
    then show ?thesis
      by (simp add: missing_trees_later)
  qed
qed

lemma Errorf0_plain: "CHR ''%'' \<notin> set s \<Longrightarrow> Errorf0 s = s"
  by (induction s rule: Errorf0.induct) auto

lemma fewer_groups:
  assumes "t \<in> set ids" and "t \<notin> set ks"
  shows "length (filter (\<lambda>k. k \<in> set ids) (remdups ks)) < length ids"
proof -
  let ?f = "filter (\<lambda>k. k \<in> set ids) (remdups ks)"
  have "distinct ?f" by simp
  then have "length ?f = card (set ?f)" by (rule distinct_card [symmetric])
  also have "set ?f \<subseteq> set ids - {t}" using assms(2) by auto
  then have "card (set ?f) \<le> card (set ids - {t})" by (intro card_mono) auto
  also have "\<dots> < card (set ids)" using assms(1) by (intro card_Diff1_less) auto
  also have "\<dots> \<le> length ids" by (rule card_length)
  finally show ?thesis .
qed

lemma set_comma_tail: "set (comma_tail ts) \<subseteq> set (concat ts) \<union> set '', ''"
  by (induction ts) auto

lemma set_comma_join: "set (comma_join ts) \<subseteq> set (concat ts) \<union> set '', ''"
  using set_comma_tail by (cases ts) auto

lemma getQuotaDesignation_missing:
  assumes "t \<in> set (GetTreeNames E w)" and "t \<notin> set (map fst (aw_Labels aw))"
      and "CHR ''%'' \<notin> set (concat (GetTreeNames E w))"
  shows "snd (snd (getQuotaDesignation E w aw)) =
           Some (''Missing required quota designation: ''
                 @ comma_join (missing_labels aw (GetTreeNames E w)) @ ''.'')"
proof -
  let ?ids = "GetTreeNames E w"
  let ?labels = "aw_Labels aw"
  let ?mk = "\<lambda>k. \<lparr>GroupContext = k, GroupId = label_value ?labels k\<rparr>"
  obtain groups t2r where f:
    "fold (designation_of_label E w ?ids ?labels) (MapKeys ?labels) ([], []) = (groups, t2r)"
    by (cases "fold (designation_of_label E w ?ids ?labels) (MapKeys ?labels) ([], [])") auto
  from fold_designation_groups [of E w ?ids ?labels "MapKeys ?labels" "[]" "[]"] f
  have groups: "groups = map ?mk (filter (\<lambda>k. k \<in> set ?ids) (MapKeys ?labels))" by simp
  from assms(1) have nonempty: "\<not> length ?ids \<le> 0" by auto
  have fewer: "length groups < length ?ids"
    using fewer_groups [OF assms(1,2)] by (simp add: groups MapKeys_def)
  have found: "\<And>u. u \<in> set ?ids \<Longrightarrow> treeFound u groups \<longleftrightarrow> u \<in> set (map fst ?labels)"
    by (auto simp: treeFound_iff groups MapKeys_def image_iff)
  then have miss: "filter (\<lambda>u. \<not> treeFound u groups) ?ids = missing_labels aw ?ids"
    unfolding missing_labels_def by (intro filter_cong) auto
  let ?msg = "''Missing required quota designation: '' @ comma_join (missing_labels aw ?ids)"
  have buf: "fst (missing_trees ?ids groups (''Missing required quota designation: '', 0)) = ?msg"
    by (simp add: missing_trees_first miss)
  have "set (concat (missing_labels aw ?ids)) \<subseteq> set (concat ?ids)"
    by (auto simp: missing_labels_def)
  with set_comma_join [of "missing_labels aw ?ids"]
  have "set (comma_join (missing_labels aw ?ids)) \<subseteq> set (concat ?ids) \<union> set '', ''"
    by blast
  with assms(3) have "CHR ''%'' \<notin> set (?msg @ ''.'')" by auto
  then have "Errorf0 (?msg @ ''.'') = ?msg @ ''.''" by (rule Errorf0_plain)
  with nonempty fewer buf f show ?thesis
    by (simp add: getQuotaDesignation_def Let_def)
qed

text \<open>
  A request that reaches \<^verbatim>\<open>buildRequest\<close> for a job without a label for a known tree is
  denied with the message of \<^verbatim>\<open>getQuotaDesignation\<close>. The known trees are those of the
  backend after the refresh of the resource plans.
\<close>

lemma Fits_missing_designation:
  assumes "quotaManagerBackend qm \<noteq> None"
      and "\<not> (GetMode E w = Maintenance \<and> initializationDone qm)"
      and "CreateId (aw_Namespace aw) (aw_Name aw) \<noteq> []"
      and "refreshResourcePlans E (w, calls) = (w1, calls1)"
      and "t \<in> set (GetTreeNames E w1)" and "t \<notin> set (map fst (aw_Labels aw))"
      and "CHR ''%'' \<notin> set (concat (GetTreeNames E w1))"
  shows "Fits E qm aw awResDemands proposedPreemptions (w, calls) =
           ((False, [],
             ''Missing required quota designation: ''
             @ comma_join (missing_labels aw (GetTreeNames E w1)) @ ''.''),
            (w1, calls1))"
proof -
  obtain groups t2r where d:
    "getQuotaDesignation E w1 aw =
       (groups, t2r,
        Some (''Missing required quota designation: ''
              @ comma_join (missing_labels aw (GetTreeNames E w1)) @ ''.''))"
    using getQuotaDesignation_missing [OF assms(5,6,7)]
    by (cases "getQuotaDesignation E w1 aw") auto
  with assms(3) have "buildRequest E qm w1 aw awResDemands =
      Inl (''Missing required quota designation: ''
           @ comma_join (missing_labels aw (GetTreeNames E w1)) @ ''.'')"
    by (simp add: buildRequest_def buildConsumer_def Let_def)
  with assms(1,2,4) show ?thesis
    by (simp add: Fits_def Fits_admit_def)
qed

text \<open>The example of the specification: known trees A and B, a job labelled for A.\<close>

lemma getQuotaDesignation_example:
  "getQuotaDesignation in_memory_backend
     (example_forest Normal [(''A'', [''cpu'']), (''B'', [''cpu''])])
     (example_job ''j'' [(''A'', ''g1'')])
   = ([\<lparr>GroupContext = ''A'', GroupId = ''g1''\<rparr>], [(''A'', [''cpu''])],
      Some ''Missing required quota designation: B.'')"
  by (simp add: quota_eval)

text \<open>
  Claim C3. For a job whose labels cover a strict subset of the known tree names,
  \<^verbatim>\<open>getQuotaDesignation\<close> fails and \<^verbatim>\<open>Fits\<close> denies with its message; the message is to
  name every missing tree and no other (\<open>getQuotaDesignation_missing\<close> and
  \<open>Fits_missing_designation\<close> show it for tree names without \<^verbatim>\<open>%\<close>). The code passes the
  assembled message to \<^verbatim>\<open>fmt.Errorf\<close> as the format, so a missing tree name that holds a
  formatting directive is not named: for the known trees \<^verbatim>\<open>A\<close> and \<^verbatim>\<open>B%d\<close> and a job
  labelled for \<^verbatim>\<open>A\<close> only, the message reads \<^verbatim>\<open>B%!d(MISSING)\<close> where the name is due.
\<close>

theorem getQuotaDesignation_format_verb:
  "getQuotaDesignation in_memory_backend
     (example_forest Normal [(''A'', [''cpu'']), (''B%d'', [''cpu''])])
     (example_job ''j'' [(''A'', ''g1'')])
   = ([\<lparr>GroupContext = ''A'', GroupId = ''g1''\<rparr>], [(''A'', [''cpu''])],
      Some ''Missing required quota designation: B%!d(MISSING).'')
   \<and> fst (Fits in_memory_backend (example_manager True) (example_job ''j'' [(''A'', ''g1'')])
            \<lparr>MilliCPU = 1000, Memory = 0, GPU = 0\<rparr> []
            (example_forest Normal [(''A'', [''cpu'']), (''B%d'', [''cpu''])], []))
     = (False, [], ''Missing required quota designation: B%!d(MISSING).'')"
  by (simp add: quota_eval)

section \<open>Demand conversion\<close>

lemma MaxInt_value: "MaxInt = 9223372036854775807"
  by (simp add: MaxInt_def mask_eq_exp_minus_1)

lemma float64_of_int_rounds_up: "float64_of_int 9223372036854775807 = 9223372036854775808"
  unfolding float64_of_int_def by code_simp

lemma float64_of_MaxInt: "float64_of_int MaxInt = 9223372036854775808"
  by (simp add: MaxInt_value float64_of_int_rounds_up)

lemma convertFloat64Demand_above:
  "9223372036854775808 < floatDemand \<Longrightarrow>
   convertFloat64Demand floatDemand = (MaxInt, Some (DemandTooLargeFloat floatDemand MaxInt))"
  by (simp add: convertFloat64Demand_def float64_of_MaxInt)

lemma convertFloat64Demand_within:
  assumes "- 9223372036854775808 \<le> floatDemand" and "floatDemand < 9223372036854775808"
  shows "convertFloat64Demand floatDemand =
           ((if 0 \<le> floatDemand then \<lfloor>floatDemand\<rfloor> else \<lceil>floatDemand\<rceil>), None)"
proof (cases "0 \<le> floatDemand")
  case True
  have "\<lfloor>floatDemand\<rfloor> < 9223372036854775808" using assms(2) by (simp add: floor_less_iff)
  moreover have "0 \<le> \<lfloor>floatDemand\<rfloor>" using True by simp
  ultimately show ?thesis using True
    by (simp add: convertFloat64Demand_def float64_of_MaxInt int_of_float64_def Trunc_def Let_def)
next
  case False
  have "- 9223372036854775808 \<le> \<lceil>floatDemand\<rceil>" using assms(1) by (simp add: le_ceiling_iff)
  moreover have "\<lceil>floatDemand\<rceil> \<le> 0" using False by (simp add: ceiling_le_iff)
  ultimately show ?thesis using False assms(2)
    by (simp add: convertFloat64Demand_def float64_of_MaxInt int_of_float64_def Trunc_def Let_def)
qed

lemma convertInt64Demand_cases:
  "convertInt64Demand d =
     (if MaxInt < d then (MaxInt, Some (DemandTooLargeInt d MaxInt)) else (d, None))"
  by (simp add: convertInt64Demand_def)

lemma fst_store_demand:
  "fst (store_demand t conv acc) = AList.update t (fst conv) (fst acc)"
  by (cases conv; cases acc) (auto simp: store_demand_def)

lemma map_of_demand_of_type:
  "map_of (fst (demand_of_type r t' acc)) t =
     (if t = t' then (case demand_for r t of None \<Rightarrow> map_of (fst acc) t | Some v \<Rightarrow> Some v)
      else map_of (fst acc) t)"
  by (auto simp: demand_of_type_def demand_for_def Let_def fst_store_demand update_conv')

lemma map_of_fold_demand_of_type:
  "map_of (fst (fold (demand_of_type r) ts acc)) t =
     (if t \<in> set ts then (case demand_for r t of None \<Rightarrow> map_of (fst acc) t | Some v \<Rightarrow> Some v)
      else map_of (fst acc) t)"
  by (induction ts arbitrary: acc) (auto simp: map_of_demand_of_type split: option.splits)

lemma demands_of_resource_types:
  "map_of (fst (getQuotaTreeResourceTypesDemands r ts)) t =
     (if t \<in> set ts then demand_for r t else None)"
proof -
  have "fst (getQuotaTreeResourceTypesDemands r ts) = fst (fold (demand_of_type r) ts ([], None, []))"
    by (auto simp: getQuotaTreeResourceTypesDemands_def split: prod.splits)
  then show ?thesis
    by (simp add: map_of_fold_demand_of_type split: option.splits)
qed

lemma buildConsumer_trees:
  assumes "buildConsumer E qm w aw r = Inr consumer"
  shows "Trees (Spec consumer) =
           map (consumerTreeSpec qm aw r (CreateId (aw_Namespace aw) (aw_Name aw))
                  (fst (snd (getQuotaDesignation E w aw))))
             (fst (getQuotaDesignation E w aw))"
  using assms
  by (auto simp: buildConsumer_def Let_def split: if_splits prod.splits option.splits)

lemma submitted_demand:
  assumes "buildConsumer E qm w aw r = Inr consumer"
      and "tree \<in> set (Trees (Spec consumer))"
      and "t \<in> set (resource_types_of (fst (snd (getQuotaDesignation E w aw))) (TreeName tree))"
  shows "map_of (Request tree) t = demand_for r t"
  using assms(2,3) unfolding buildConsumer_trees [OF assms(1)]
  by (auto simp: consumerTreeSpec_def Let_def demands_of_resource_types)

text \<open>
  Claim C4. A demand above \<^verbatim>\<open>MaxInt\<close> is to be clamped to \<^verbatim>\<open>MaxInt\<close> and reported, and the
  clamped value submitted; a demand that does not exceed \<^verbatim>\<open>MaxInt\<close> is to pass through,
  truncated, without a report (\<open>convertFloat64Demand_above\<close> shows the first for every
  demand above \<open>2^63\<close>, \<open>convertFloat64Demand_within\<close> the second for every demand from
  \<open>- 2^63\<close> up to \<open>2^63\<close>, and \<open>submitted_demand\<close> that the converted value is the one
  submitted). The code compares the demand with \<^verbatim>\<open>float64(MaxInt)\<close>, which is \<open>2^63\<close> and
  not \<open>2^63 - 1\<close>: the demand \<open>2^63\<close> is above \<^verbatim>\<open>MaxInt\<close>, is not clamped and is not
  reported; its conversion to \<^verbatim>\<open>int\<close> is out of range, and the request submitted for it
  carries the smallest integer. The next \<^verbatim>\<open>float64\<close>, \<open>2^63 + 2048\<close>, is clamped and
  reported.
\<close>

theorem convertFloat64Demand_boundary:
  "real_of_int MaxInt < 9223372036854775808
   \<and> convertFloat64Demand 9223372036854775808 = (- 9223372036854775808, None)
   \<and> convertFloat64Demand 9223372036854777856
       = (MaxInt, Some (DemandTooLargeFloat 9223372036854777856 MaxInt))
   \<and> map (\<lambda>c. map Request (Trees (Spec c)))
       (forest_consumers (fst (snd
          (Fits in_memory_backend (example_manager True) (example_job ''j'' [(''A'', ''g1'')])
             \<lparr>MilliCPU = 9223372036854775808, Memory = 0, GPU = 0\<rparr> []
             (example_forest Normal [(''A'', [''cpu''])], [])))))
       = [[[(''cpu'', - 9223372036854775808)]]]"
  by (simp add: quota_eval MaxInt_value convertFloat64Demand_def float64_of_int_rounds_up
        int_of_float64_def Trunc_def)

end
